theory Spec2Isabelle
  imports Main "HOL-Library.Char_ord" "HOL-Library.List_Lexorder"
begin

section \<open>Python strings\<close>

text \<open>
  The script \<^verbatim>\<open>test-server.py\<close> is 25 lines that drive Python's standard library:
  \<^verbatim>\<open>os\<close>, \<^verbatim>\<open>socketserver.TCPServer\<close> and \<^verbatim>\<open>http.server.SimpleHTTPRequestHandler\<close>,
  whose method \<^verbatim>\<open>end_headers\<close> it overrides. The model follows the script line by line
  and, below it, the library methods (CPython 3.11) that the script's calls run.
  A Python \<^verbatim>\<open>str\<close> or \<^verbatim>\<open>bytes\<close> value is a \<^typ>\<open>string\<close>; what the operating system
  and the library functions that are not modelled return is a field of the record
  \<open>env\<close> below, so that every theorem holds for all their values.
\<close>

definition CRLF :: string where
  "CRLF = [CHR 0x0D, CHR 0x0A]"

text \<open>\<^verbatim>\<open>s.startswith(p)\<close> and \<^verbatim>\<open>s.endswith(p)\<close>.\<close>

definition startswith :: "string \<Rightarrow> string \<Rightarrow> bool" where
  "startswith s p = (take (length p) s = p)"

definition endswith :: "string \<Rightarrow> string \<Rightarrow> bool" where
  "endswith s p = (length p \<le> length s \<and> drop (length s - length p) s = p)"

text \<open>\<^verbatim>\<open>str(n)\<close> and \<^verbatim>\<open>"%d" % n\<close> for a non-negative integer: its decimal digits.\<close>

definition digit_char :: "nat \<Rightarrow> char" where
  "digit_char d = ''0123456789'' ! d"

function str_nat :: "nat \<Rightarrow> string" where
  "str_nat n = (if n < 10 then [digit_char n] else str_nat (n div 10) @ [digit_char (n mod 10)])"
  by pat_completeness auto
termination
  by (relation "measure id") auto

declare str_nat.simps [simp del]

text \<open>
  \<^verbatim>\<open>s.lower()\<close>, used only to compare with an ASCII literal or to look up an ASCII key:
  there it agrees with lowering the letters A to Z.
\<close>

definition lower_char :: "char \<Rightarrow> char" where
  "lower_char c =
     (case map_of (zip ''ABCDEFGHIJKLMNOPQRSTUVWXYZ'' ''abcdefghijklmnopqrstuvwxyz'') c of
        Some d \<Rightarrow> d
      | None \<Rightarrow> c)"

definition lower :: "string \<Rightarrow> string" where
  "lower s = map lower_char s"

text \<open>
  \<^verbatim>\<open>c.isspace()\<close> for a character of a string decoded from ISO 8859-1: tab to carriage
  return, the separators 0x1C to 0x1F, space, NEL (0x85) and the no-break space (0xA0).
\<close>

definition isspace :: "char \<Rightarrow> bool" where
  "isspace c = (let n = (of_char c :: nat) in
     (9 \<le> n \<and> n \<le> 13) \<or> (28 \<le> n \<and> n \<le> 32) \<or> n = 133 \<or> n = 160)"

text \<open>\<^verbatim>\<open>s.split()\<close>: the maximal runs of characters that are not whitespace.\<close>

fun split_ws_acc :: "string \<Rightarrow> string \<Rightarrow> string list" where
  "split_ws_acc w [] = (if w = [] then [] else [w])"
| "split_ws_acc w (c # cs) =
     (if isspace c then (if w = [] then split_ws_acc [] cs else w # split_ws_acc [] cs)
      else split_ws_acc (w @ [c]) cs)"

definition split_ws :: "string \<Rightarrow> string list" where
  "split_ws s = split_ws_acc [] s"

text \<open>\<^verbatim>\<open>s.split(sep)\<close> for a separator of one character: empty pieces are kept.\<close>

fun split_acc :: "char \<Rightarrow> string \<Rightarrow> string \<Rightarrow> string list" where
  "split_acc sep w [] = [w]"
| "split_acc sep w (c # cs) =
     (if c = sep then w # split_acc sep [] cs else split_acc sep (w @ [c]) cs)"

definition split_sep :: "string \<Rightarrow> char \<Rightarrow> string list" where
  "split_sep s sep = split_acc sep [] s"

text \<open>\<^verbatim>\<open>s.split(sep, 1)[0]\<close>: what stands before the first separator.\<close>

definition split1_head :: "string \<Rightarrow> char \<Rightarrow> string" where
  "split1_head s sep = takeWhile (\<lambda>c. c \<noteq> sep) s"

text \<open>\<^verbatim>\<open>sep.join(xs)\<close>.\<close>

fun join :: "string \<Rightarrow> string list \<Rightarrow> string" where
  "join sep [] = []"
| "join sep [x] = x"
| "join sep (x # y # ys) = x @ sep @ join sep (y # ys)"

text \<open>\<^verbatim>\<open>s.rstrip()\<close>, \<^verbatim>\<open>s.rstrip(chars)\<close> and \<^verbatim>\<open>s.lstrip(chars)\<close>.\<close>

definition rstrip_ws :: "string \<Rightarrow> string" where
  "rstrip_ws s = rev (dropWhile isspace (rev s))"

definition rstrip :: "string \<Rightarrow> string \<Rightarrow> string" where
  "rstrip s chars = rev (dropWhile (\<lambda>c. c \<in> set chars) (rev s))"

definition lstrip :: "string \<Rightarrow> string \<Rightarrow> string" where
  "lstrip s chars = dropWhile (\<lambda>c. c \<in> set chars) s"

text \<open>\<^verbatim>\<open>s.replace(c, t)\<close> for one character \<open>c\<close>, and \<^verbatim>\<open>html.escape(s, quote=False)\<close>.\<close>

definition replace_char :: "string \<Rightarrow> char \<Rightarrow> string \<Rightarrow> string" where
  "replace_char s c t = concat (map (\<lambda>d. if d = c then t else [d]) s)"

definition html_escape :: "string \<Rightarrow> string" where
  "html_escape s =
     replace_char (replace_char (replace_char s (CHR ''&'') ''&amp;'') (CHR ''<'') ''&lt;'')
       (CHR ''>'') ''&gt;''"

section \<open>posixpath\<close>

text \<open>\<^verbatim>\<open>os.path.join(a, b)\<close> with one component \<open>b\<close>.\<close>

definition os_path_join :: "string \<Rightarrow> string \<Rightarrow> string" where
  "os_path_join a b =
     (if startswith b ''/'' then b
      else if a = [] \<or> endswith a ''/'' then a @ b
      else a @ ''/'' @ b)"

text \<open>
  \<^verbatim>\<open>os.path.dirname(p)\<close>: the part up to the last slash, without its trailing slashes
  unless it is made of slashes only.
\<close>

definition os_path_dirname :: "string \<Rightarrow> string" where
  "os_path_dirname p =
     (let head = rev (dropWhile (\<lambda>c. c \<noteq> CHR ''/'') (rev p))
      in if head \<noteq> [] \<and> head \<noteq> replicate (length head) (CHR ''/'') then rstrip head ''/''
         else head)"

text \<open>
  \<^verbatim>\<open>posixpath.normpath(path)\<close>. The loop keeps \<open>new_comps\<close>; \<open>initial_slashes\<close> is 0, 1
  or 2.
\<close>

fun normpath_loop :: "nat \<Rightarrow> string list \<Rightarrow> string list \<Rightarrow> string list" where
  "normpath_loop initial_slashes new_comps [] = new_comps"
| "normpath_loop initial_slashes new_comps (cmp # comps) =
     (if cmp = [] \<or> cmp = ''.'' then normpath_loop initial_slashes new_comps comps
      else if cmp \<noteq> ''..'' \<or> (initial_slashes = 0 \<and> new_comps = [])
              \<or> (new_comps \<noteq> [] \<and> last new_comps = ''..'')
        then normpath_loop initial_slashes (new_comps @ [cmp]) comps
      else if new_comps \<noteq> [] then normpath_loop initial_slashes (butlast new_comps) comps
      else normpath_loop initial_slashes new_comps comps)"

definition normpath :: "string \<Rightarrow> string" where
  "normpath path =
     (if path = [] then ''.''
      else
        let initial_slashes =
              (if startswith path ''/'' then
                 (if startswith path ''//'' \<and> \<not> startswith path ''///'' then 2 else 1)
               else (0::nat));
            comps = normpath_loop initial_slashes [] (split_sep path (CHR ''/''));
            joined = join ''/'' comps;
            path' = (if initial_slashes \<noteq> 0
                     then replicate initial_slashes (CHR ''/'') @ joined else joined)
        in if path' = [] then ''.'' else path')"

text \<open>
  \<^verbatim>\<open>posixpath.splitext(p)[1]\<close>: the extension runs from the last dot of the last
  component, unless only dots stand before it there.
\<close>

definition splitext_ext :: "string \<Rightarrow> string" where
  "splitext_ext p =
     (let name = rev (takeWhile (\<lambda>c. c \<noteq> CHR ''/'') (rev p));
          ext = rev (takeWhile (\<lambda>c. c \<noteq> CHR ''.'') (rev name));
          stem = take (length name - length ext - 1) name
      in if CHR ''.'' \<in> set name \<and> (\<exists>c \<in> set stem. c \<noteq> CHR ''.'') then CHR ''.'' # ext
         else [])"

section \<open>The environment of the process\<close>

text \<open>
  Exceptions are values. \<open>os_error\<close> is \<^verbatim>\<open>OSError\<close> with the subclasses that the
  operating system raises in this program, each with its message; \<^verbatim>\<open>KeyboardInterrupt\<close>
  is what Python raises in the main thread when the process receives SIGINT, and \<open>Error\<close>
  stands for any other subclass of \<^verbatim>\<open>Exception\<close>.
\<close>

datatype os_error =
    FileNotFoundError string
  | NotADirectoryError string
  | PermissionError string
  | OtherOSError string

datatype py_exception =
    OSError os_error
  | Error string
  | KeyboardInterrupt

text \<open>An open file: what \<^verbatim>\<open>read\<close> returns up to the end, and two fields of \<^verbatim>\<open>os.fstat\<close>.\<close>

record file_obj =
  content :: string
  st_size :: nat
  st_mtime :: int

text \<open>
  \<^verbatim>\<open>email.utils.parsedate_to_datetime\<close> on the value of \<^verbatim>\<open>If-Modified-Since\<close>: it raises
  (\<open>IllFormed\<close>), or returns a date without a time zone (\<open>Naive\<close>), a date in UTC, or a
  date in another zone. The integer is the POSIX time, in seconds, of the date with its
  fields read in UTC. \<open>st_mtime\<close> above is in seconds too, without its fraction: the
  library drops the microseconds before it compares or prints the time.
\<close>

datatype parsed_date = IllFormed | Naive int | Utc int | OtherZone int

text \<open>
  \<^verbatim>\<open>http.client.parse_headers\<close> on the lines after the request line: the two exceptions
  that \<^verbatim>\<open>parse_request\<close> catches, with their messages, or the header fields in order.
\<close>

datatype parsed_headers =
    LineTooLong string
  | TooManyHeaders string
  | Headers "(string \<times> string) list"

text \<open>
  What the process gets from outside the script: the answers of the operating system
  (after the change of directory, paths are read from the new working directory, which
  does not change again) and the library functions that are not modelled.
\<close>

record env =
  os_chdir :: "string \<Rightarrow> os_error option"
  os_getcwd :: string
  os_listdir :: "string \<Rightarrow> os_error + string list"
  os_path_isdir :: "string \<Rightarrow> bool"
  os_path_isfile :: "string \<Rightarrow> bool"
  os_path_islink :: "string \<Rightarrow> bool"
  open_rb :: "string \<Rightarrow> os_error + file_obj"
  bind_permitted :: bool
  version_string :: string
  date_time_string :: "int option \<Rightarrow> string"
  urllib_unquote :: "string \<Rightarrow> string"
  urllib_quote :: "string \<Rightarrow> string"
  urllib_urlsplit :: "string \<Rightarrow> string \<times> string \<times> string \<times> string \<times> string"
  urllib_urlunsplit :: "string \<times> string \<times> string \<times> string \<times> string \<Rightarrow> string"
  mimetypes_guess_type :: "string \<Rightarrow> string option"
  parsedate_to_datetime :: "string \<Rightarrow> parsed_date"
  getfilesystemencoding :: string
  str_encode :: "string \<Rightarrow> string \<Rightarrow> string"
  py_repr :: "string \<Rightarrow> string"
  key_lower :: "string \<Rightarrow> string"

section \<open>The request handler\<close>

subsection \<open>State of a handler\<close>

text \<open>
  The attributes of a \<^verbatim>\<open>MyHTTPRequestHandler\<close> that its methods read and write.
  \<open>wfile\<close> is every byte written to the connection so far. \<open>headers_buffer\<close> is the list
  \<^verbatim>\<open>_headers_buffer\<close>; the attribute is created at the first use, and the empty list also
  stands for the attribute not being there (the base \<^verbatim>\<open>end_headers\<close> would raise
  \<^verbatim>\<open>AttributeError\<close> then; every caller has buffered the status line or a header
  under the same test of \<open>request_version\<close> before).
\<close>

record handler =
  directory :: string
  command :: "string option"
  path :: string
  request_version :: string
  requestline :: string
  headers :: "(string \<times> string) list"
  close_connection :: bool
  headers_buffer :: "string list"
  wfile :: string

definition protocol_version :: string where
  "protocol_version = ''HTTP/1.0''"

definition default_request_version :: string where
  "default_request_version = ''HTTP/0.9''"

definition error_content_type :: string where
  "error_content_type = ''text/html;charset=utf-8''"

text \<open>
  \<^verbatim>\<open>BaseHTTPRequestHandler.responses\<close>, at the status codes that the handler sends:
  the phrase and the description of \<^verbatim>\<open>http.HTTPStatus\<close>.
\<close>

definition responses :: "nat \<Rightarrow> (string \<times> string) option" where
  "responses code =
     (if code = 100 then Some (''Continue'', ''Request received, please continue'')
      else if code = 200 then Some (''OK'', ''Request fulfilled, document follows'')
      else if code = 301 then
        Some (''Moved Permanently'', ''Object moved permanently -- see URI list'')
      else if code = 304 then
        Some (''Not Modified'', ''Document has not changed since given time'')
      else if code = 400 then
        Some (''Bad Request'', ''Bad request syntax or unsupported method'')
      else if code = 404 then Some (''Not Found'', ''Nothing matches the given URI'')
      else if code = 414 then Some (''Request-URI Too Long'', ''URI is too long'')
      else if code = 431 then
        Some (''Request Header Fields Too Large'',
          ''The server is unwilling to process the request because its header ''
          @ ''fields are too large'')
      else if code = 501 then
        Some (''Not Implemented'', ''Server does not support this operation'')
      else if code = 505 then
        Some (''HTTP Version Not Supported'', ''Cannot fulfill request'')
      else None)"

subsection \<open>Writing a response: \<^verbatim>\<open>BaseHTTPRequestHandler\<close>\<close>

text \<open>
  \<^verbatim>\<open>
  def send_response_only(self, code, message=None):
      if self.request_version != 'HTTP/0.9':
          if message is None:
              if code in self.responses: message = self.responses[code][0]
              else: message = ''
          self._headers_buffer.append(("%s %d %s\r\n" %
                  (self.protocol_version, code, message)).encode('latin-1', 'strict'))
  \<close>
\<close>

definition send_response_only :: "nat \<Rightarrow> string option \<Rightarrow> handler \<Rightarrow> handler" where
  "send_response_only code message h =
     (if request_version h \<noteq> ''HTTP/0.9'' then
        let message' =
              (case message of
                 None \<Rightarrow> (case responses code of Some (phrase, _) \<Rightarrow> phrase | None \<Rightarrow> [])
               | Some m \<Rightarrow> m)
        in h\<lparr>headers_buffer := headers_buffer h @
               [protocol_version @ '' '' @ str_nat code @ '' '' @ message' @ CRLF]\<rparr>
      else h)"

text \<open>
  \<^verbatim>\<open>
  def send_header(self, keyword, value):
      if self.request_version != 'HTTP/0.9':
          self._headers_buffer.append(
              ("%s: %s\r\n" % (keyword, value)).encode('latin-1', 'strict'))
      if keyword.lower() == 'connection':
          if value.lower() == 'close': self.close_connection = True
          elif value.lower() == 'keep-alive': self.close_connection = False
  \<close>
\<close>

definition send_header :: "string \<Rightarrow> string \<Rightarrow> handler \<Rightarrow> handler" where
  "send_header keyword val h =
     (let h1 = (if request_version h \<noteq> ''HTTP/0.9''
                then h\<lparr>headers_buffer := headers_buffer h @ [keyword @ '': '' @ val @ CRLF]\<rparr>
                else h)
      in if lower keyword = ''connection'' then
           (if lower val = ''close'' then h1\<lparr>close_connection := True\<rparr>
            else if lower val = ''keep-alive'' then h1\<lparr>close_connection := False\<rparr>
            else h1)
         else h1)"

text \<open>
  \<^verbatim>\<open>
  def flush_headers(self):
      if hasattr(self, '_headers_buffer'):
          self.wfile.write(b"".join(self._headers_buffer))
          self._headers_buffer = []
  \<close>
\<close>

definition flush_headers :: "handler \<Rightarrow> handler" where
  "flush_headers h = h\<lparr>wfile := wfile h @ concat (headers_buffer h), headers_buffer := []\<rparr>"

text \<open>
  The method of the base class, which the script reaches through \<^verbatim>\<open>super()\<close>:
  \<^verbatim>\<open>
  def end_headers(self):
      if self.request_version != 'HTTP/0.9':
          self._headers_buffer.append(b"\r\n")
          self.flush_headers()
  \<close>
\<close>

definition super_end_headers :: "handler \<Rightarrow> handler" where
  "super_end_headers h =
     (if request_version h \<noteq> ''HTTP/0.9''
      then flush_headers (h\<lparr>headers_buffer := headers_buffer h @ [CRLF]\<rparr>)
      else h)"

text \<open>
  The method of the script (lines 12 to 15). Python looks \<^verbatim>\<open>self.end_headers\<close> up in the
  class of the object, so every call of \<^verbatim>\<open>end_headers\<close> in the library runs this one.
  \<^verbatim>\<open>
  class MyHTTPRequestHandler(http.server.SimpleHTTPRequestHandler):
      def end_headers(self):
          self.send_header('Access-Control-Allow-Origin', '*')
          super().end_headers()
  \<close>
\<close>

definition end_headers :: "handler \<Rightarrow> handler" where
  "end_headers h = super_end_headers (send_header ''Access-Control-Allow-Origin'' ''*'' h)"

text \<open>
  \<^verbatim>\<open>send_response\<close> buffers the status line and the headers \<^verbatim>\<open>Server\<close> and \<^verbatim>\<open>Date\<close>.
  The line that \<^verbatim>\<open>log_request\<close> writes to the standard error stream is left out, here
  and in \<^verbatim>\<open>send_error\<close>.
\<close>

definition send_response :: "env \<Rightarrow> nat \<Rightarrow> string option \<Rightarrow> handler \<Rightarrow> handler" where
  "send_response e code message h =
     send_header ''Date'' (date_time_string e None)
       (send_header ''Server'' (version_string e)
         (send_response_only code message h))"

text \<open>
  \<^verbatim>\<open>error_message_format % {'code': code, 'message': message, 'explain': explain}\<close>
  with the default template of \<^verbatim>\<open>http.server\<close>.
\<close>

definition NL :: string where
  "NL = [CHR 0x0A]"

definition DQ :: string where
  "DQ = [CHR 0x22]"

definition error_message_format :: "nat \<Rightarrow> string \<Rightarrow> string \<Rightarrow> string" where
  "error_message_format code message explain =
     ''<!DOCTYPE HTML>'' @ NL @
     ''<html lang='' @ DQ @ ''en'' @ DQ @ ''>'' @ NL @
     ''    <head>'' @ NL @
     ''        <meta charset='' @ DQ @ ''utf-8'' @ DQ @ ''>'' @ NL @
     ''        <title>Error response</title>'' @ NL @
     ''    </head>'' @ NL @
     ''    <body>'' @ NL @
     ''        <h1>Error response</h1>'' @ NL @
     ''        <p>Error code: '' @ str_nat code @ ''</p>'' @ NL @
     ''        <p>Message: '' @ message @ ''.</p>'' @ NL @
     ''        <p>Error code explanation: '' @ str_nat code @ '' - '' @ explain @ ''.</p>'' @ NL @
     ''    </body>'' @ NL @
     ''</html>'' @ NL"

text \<open>
  \<^verbatim>\<open>
  def send_error(self, code, message=None, explain=None):
      try: shortmsg, longmsg = self.responses[code]
      except KeyError: shortmsg, longmsg = '???', '???'
      if message is None: message = shortmsg
      if explain is None: explain = longmsg
      self.send_response(code, message)
      self.send_header('Connection', 'close')
      body = None
      if (code >= 200 and code not in (HTTPStatus.NO_CONTENT,
              HTTPStatus.RESET_CONTENT, HTTPStatus.NOT_MODIFIED)):
          content = (self.error_message_format % {
              'code': code,
              'message': html.escape(message, quote=False),
              'explain': html.escape(explain, quote=False)})
          body = content.encode('UTF-8', 'replace')
          self.send_header("Content-Type", self.error_content_type)
          self.send_header('Content-Length', str(len(body)))
      self.end_headers()
      if self.command != 'HEAD' and body:
          self.wfile.write(body)
  \<close>
\<close>

definition send_error :: "env \<Rightarrow> nat \<Rightarrow> string option \<Rightarrow> string option \<Rightarrow> handler \<Rightarrow> handler" where
  "send_error e code message explain h =
     (let (shortmsg, longmsg) =
            (case responses code of Some r \<Rightarrow> r | None \<Rightarrow> (''???'', ''???''));
          message' = (case message of None \<Rightarrow> shortmsg | Some m \<Rightarrow> m);
          explain' = (case explain of None \<Rightarrow> longmsg | Some x \<Rightarrow> x);
          h1 = send_header ''Connection'' ''close'' (send_response e code (Some message') h);
          body =
            (if code \<ge> 200 \<and> code \<notin> {204, 205, 304} then
               Some (str_encode e ''UTF-8''
                 (error_message_format code (html_escape message') (html_escape explain')))
             else None);
          h2 = (case body of
                  Some b \<Rightarrow>
                    send_header ''Content-Length'' (str_nat (length b))
                      (send_header ''Content-Type'' error_content_type h1)
                | None \<Rightarrow> h1);
          h3 = end_headers h2
      in case body of
           Some b \<Rightarrow>
             (if command h3 \<noteq> Some ''HEAD'' \<and> b \<noteq> [] then h3\<lparr>wfile := wfile h3 @ b\<rparr> else h3)
         | None \<Rightarrow> h3)"

subsection \<open>Reading a request: \<^verbatim>\<open>BaseHTTPRequestHandler.parse_request\<close>\<close>

text \<open>
  \<^verbatim>\<open>headers.get(name)\<close> and \<^verbatim>\<open>name in headers\<close> of \<^verbatim>\<open>email.message.Message\<close>: the first
  field whose name is \<open>name\<close>, letter case apart.
\<close>

definition headers_get :: "(string \<times> string) list \<Rightarrow> string \<Rightarrow> string option" where
  "headers_get hs name = map_option snd (find (\<lambda>kv. lower (fst kv) = lower name) hs)"

definition headers_get_default :: "(string \<times> string) list \<Rightarrow> string \<Rightarrow> string \<Rightarrow> string" where
  "headers_get_default hs name d = (case headers_get hs name of None \<Rightarrow> d | Some v \<Rightarrow> v)"

text \<open>
  The \<^verbatim>\<open>try\<close> block of \<^verbatim>\<open>parse_request\<close> that reads the version: \<open>None\<close> where it
  raises \<^verbatim>\<open>ValueError\<close>.
  \<^verbatim>\<open>
  if not version.startswith('HTTP/'): raise ValueError
  base_version_number = version.split('/', 1)[1]
  version_number = base_version_number.split(".")
  if len(version_number) != 2: raise ValueError
  if any(not component.isdigit() for component in version_number): raise ValueError(...)
  if any(len(component) > 10 for component in version_number): raise ValueError(...)
  version_number = int(version_number[0]), int(version_number[1])
  \<close>
  \<^verbatim>\<open>isdigit\<close> also accepts the superscript digits of ISO 8859-1, on which \<^verbatim>\<open>int\<close> raises
  \<^verbatim>\<open>ValueError\<close> in turn: a component passes when it is a non-empty run of the digits
  0 to 9.
\<close>

definition isdigit :: "char \<Rightarrow> bool" where
  "isdigit c = (CHR ''0'' \<le> c \<and> c \<le> CHR ''9'')"

definition int_of_digits :: "string \<Rightarrow> nat" where
  "int_of_digits s = foldl (\<lambda>n c. 10 * n + (of_char c - 48)) 0 s"

definition base_version_number :: "string \<Rightarrow> string" where
  "base_version_number version = drop 5 version"

definition parse_version :: "string \<Rightarrow> (nat \<times> nat) option" where
  "parse_version version =
     (if \<not> startswith version ''HTTP/'' then None
      else
        let version_number = split_sep (base_version_number version) (CHR ''.'')
        in if length version_number \<noteq> 2 then None
           else if list_ex (\<lambda>component. component = [] \<or> \<not> list_all isdigit component)
                     version_number then None
           else if list_ex (\<lambda>component. length component > 10) version_number then None
           else Some (int_of_digits (version_number ! 0), int_of_digits (version_number ! 1)))"

text \<open>
  \<^verbatim>\<open>handle_expect_100\<close>: \<^verbatim>\<open>self.send_response_only(HTTPStatus.CONTINUE); self.end_headers()\<close>.
\<close>

definition handle_expect_100 :: "handler \<Rightarrow> handler" where
  "handle_expect_100 h = end_headers (send_response_only 100 None h)"

text \<open>
  \<^verbatim>\<open>parse_request\<close> after the request line: the path, the header fields, and the
  directives \<^verbatim>\<open>Connection\<close> and \<^verbatim>\<open>Expect\<close>.
  \<^verbatim>\<open>
  self.command, self.path = command, path
  if self.path.startswith('//'):
      self.path = '/' + self.path.lstrip('/')
  try:
      self.headers = http.client.parse_headers(self.rfile, _class=self.MessageClass)
  except http.client.LineTooLong as err:
      self.send_error(HTTPStatus.REQUEST_HEADER_FIELDS_TOO_LARGE, "Line too long", str(err))
      return False
  except http.client.HTTPException as err:
      self.send_error(HTTPStatus.REQUEST_HEADER_FIELDS_TOO_LARGE, "Too many headers", str(err))
      return False
  conntype = self.headers.get('Connection', "")
  if conntype.lower() == 'close':
      self.close_connection = True
  elif (conntype.lower() == 'keep-alive' and self.protocol_version >= "HTTP/1.1"):
      self.close_connection = False
  expect = self.headers.get('Expect', "")
  if (expect.lower() == "100-continue" and self.protocol_version >= "HTTP/1.1" and
          self.request_version >= "HTTP/1.1"):
      if not self.handle_expect_100(): return False
  return True
  \<close>
\<close>

definition parse_request_headers ::
  "env \<Rightarrow> string \<Rightarrow> string \<Rightarrow> parsed_headers \<Rightarrow> handler \<Rightarrow> bool \<times> handler" where
  "parse_request_headers e command' path' hdrs h =
     (let h1 = h\<lparr>command := Some command', path := path'\<rparr>;
          h2 = (if startswith (path h1) ''//''
                then h1\<lparr>path := ''/'' @ lstrip (path h1) ''/''\<rparr> else h1)
      in case hdrs of
           LineTooLong err \<Rightarrow> (False, send_error e 431 (Some ''Line too long'') (Some err) h2)
         | TooManyHeaders err \<Rightarrow>
             (False, send_error e 431 (Some ''Too many headers'') (Some err) h2)
         | Headers hs \<Rightarrow>
             let h3 = h2\<lparr>headers := hs\<rparr>;
                 conntype = headers_get_default (headers h3) ''Connection'' [];
                 h4 = (if lower conntype = ''close'' then h3\<lparr>close_connection := True\<rparr>
                       else if lower conntype = ''keep-alive'' \<and> protocol_version \<ge> ''HTTP/1.1''
                         then h3\<lparr>close_connection := False\<rparr>
                       else h3);
                 expect = headers_get_default (headers h4) ''Expect'' []
             in if lower expect = ''100-continue'' \<and> protocol_version \<ge> ''HTTP/1.1''
                   \<and> request_version h4 \<ge> ''HTTP/1.1''
                then (True, handle_expect_100 h4)
                else (True, h4))"

text \<open>
  \<^verbatim>\<open>parse_request\<close> from its start to the request line. The result is the value that
  the method returns and the handler after it.
  \<^verbatim>\<open>
  self.command = None
  self.request_version = version = self.default_request_version
  self.close_connection = True
  requestline = str(self.raw_requestline, 'iso-8859-1')
  requestline = requestline.rstrip('\r\n')
  self.requestline = requestline
  words = requestline.split()
  if len(words) == 0: return False
  if len(words) >= 3:
      version = words[-1]
      try: ...
      except (ValueError, IndexError):
          self.send_error(HTTPStatus.BAD_REQUEST, "Bad request version (%r)" % version)
          return False
      if version_number >= (1, 1) and self.protocol_version >= "HTTP/1.1":
          self.close_connection = False
      if version_number >= (2, 0):
          self.send_error(HTTPStatus.HTTP_VERSION_NOT_SUPPORTED,
                          "Invalid HTTP version (%s)" % base_version_number)
          return False
      self.request_version = version
  if not 2 <= len(words) <= 3:
      self.send_error(HTTPStatus.BAD_REQUEST, "Bad request syntax (%r)" % requestline)
      return False
  command, path = words[:2]
  if len(words) == 2:
      self.close_connection = True
      if command != 'GET':
          self.send_error(HTTPStatus.BAD_REQUEST, "Bad HTTP/0.9 request type (%r)" % command)
          return False
  \<close>
\<close>

definition version_ge :: "nat \<times> nat \<Rightarrow> nat \<times> nat \<Rightarrow> bool" where
  "version_ge a b = (fst a > fst b \<or> (fst a = fst b \<and> snd a \<ge> snd b))"

definition parse_request :: "env \<Rightarrow> string \<Rightarrow> parsed_headers \<Rightarrow> handler \<Rightarrow> bool \<times> handler" where
  "parse_request e raw_requestline hdrs h =
     (let requestline' = rstrip raw_requestline CRLF;
          h1 = h\<lparr>command := None, request_version := default_request_version,
                 close_connection := True, requestline := requestline'\<rparr>;
          words = split_ws requestline'
      in if length words = 0 then (False, h1)
         else
           let after_version =
                 (if length words \<ge> 3 then
                    let version = last words
                    in case parse_version version of
                         None \<Rightarrow>
                           Inl (send_error e 400
                                  (Some (''Bad request version ('' @ py_repr e version @ '')''))
                                  None h1)
                       | Some version_number \<Rightarrow>
                           let h2 = (if version_ge version_number (1, 1)
                                        \<and> protocol_version \<ge> ''HTTP/1.1''
                                     then h1\<lparr>close_connection := False\<rparr> else h1)
                           in if version_ge version_number (2, 0) then
                                Inl (send_error e 505
                                       (Some (''Invalid HTTP version (''
                                              @ base_version_number version @ '')''))
                                       None h2)
                              else Inr (h2\<lparr>request_version := version\<rparr>)
                  else Inr h1)
           in case after_version of
                Inl h_err \<Rightarrow> (False, h_err)
              | Inr h3 \<Rightarrow>
                  if \<not> (2 \<le> length words \<and> length words \<le> 3) then
                    (False, send_error e 400
                              (Some (''Bad request syntax ('' @ py_repr e requestline' @ '')''))
                              None h3)
                  else
                    let command' = words ! 0; path' = words ! 1
                    in if length words = 2 \<and> command' \<noteq> ''GET'' then
                         (False, send_error e 400
                                   (Some (''Bad HTTP/0.9 request type (''
                                          @ py_repr e command' @ '')''))
                                   None (h3\<lparr>close_connection := True\<rparr>))
                       else
                         parse_request_headers e command' path' hdrs
                           (if length words = 2 then h3\<lparr>close_connection := True\<rparr> else h3))"

subsection \<open>Serving files: \<^verbatim>\<open>SimpleHTTPRequestHandler\<close>\<close>

text \<open>
  \<^verbatim>\<open>urllib.parse.unquote\<close> returns a string without a percent sign as it is; on the
  others it is the function of the environment (with the second call that
  \<^verbatim>\<open>translate_path\<close> and \<^verbatim>\<open>list_directory\<close> make when the first raises
  \<^verbatim>\<open>UnicodeDecodeError\<close>).
\<close>

definition unquote :: "env \<Rightarrow> string \<Rightarrow> string" where
  "unquote e s = (if CHR ''%'' \<notin> set s then s else urllib_unquote e s)"

text \<open>
  \<^verbatim>\<open>
  def translate_path(self, path):
      path = path.split('?',1)[0]
      path = path.split('#',1)[0]
      trailing_slash = path.rstrip().endswith('/')
      try: path = urllib.parse.unquote(path, errors='surrogatepass')
      except UnicodeDecodeError: path = urllib.parse.unquote(path)
      path = posixpath.normpath(path)
      words = path.split('/')
      words = filter(None, words)
      path = self.directory
      for word in words:
          if os.path.dirname(word) or word in (os.curdir, os.pardir):
              continue
          path = os.path.join(path, word)
      if trailing_slash:
          path += '/'
      return path
  \<close>
\<close>

fun translate_path_loop :: "string \<Rightarrow> string list \<Rightarrow> string" where
  "translate_path_loop p [] = p"
| "translate_path_loop p (word # words) =
     (if os_path_dirname word \<noteq> [] \<or> word = ''.'' \<or> word = ''..''
      then translate_path_loop p words
      else translate_path_loop (os_path_join p word) words)"

definition translate_path :: "env \<Rightarrow> handler \<Rightarrow> string \<Rightarrow> string" where
  "translate_path e h url =
     (let p1 = split1_head url (CHR ''?'');
          p2 = split1_head p1 (CHR ''#'');
          trailing_slash = endswith (rstrip_ws p2) ''/'';
          p3 = unquote e p2;
          p4 = normpath p3;
          words = filter (\<lambda>w. w \<noteq> []) (split_sep p4 (CHR ''/''));
          p5 = translate_path_loop (directory h) words
      in if trailing_slash then p5 @ ''/'' else p5)"

text \<open>
  \<^verbatim>\<open>
  def guess_type(self, path):
      base, ext = posixpath.splitext(path)
      if ext in self.extensions_map: return self.extensions_map[ext]
      ext = ext.lower()
      if ext in self.extensions_map: return self.extensions_map[ext]
      guess, _ = mimetypes.guess_type(path)
      if guess: return guess
      return 'application/octet-stream'
  \<close>
\<close>

definition extensions_map :: "string \<Rightarrow> string option" where
  "extensions_map ext =
     (if ext = ''.gz'' then Some ''application/gzip''
      else if ext = ''.Z'' then Some ''application/octet-stream''
      else if ext = ''.bz2'' then Some ''application/x-bzip2''
      else if ext = ''.xz'' then Some ''application/x-xz''
      else None)"

definition guess_type :: "env \<Rightarrow> string \<Rightarrow> string" where
  "guess_type e p =
     (let ext = splitext_ext p
      in case extensions_map ext of
           Some t \<Rightarrow> t
         | None \<Rightarrow>
             (case extensions_map (lower ext) of
                Some t \<Rightarrow> t
              | None \<Rightarrow>
                  (case mimetypes_guess_type e p of
                     Some guess \<Rightarrow> if guess \<noteq> [] then guess else ''application/octet-stream''
                   | None \<Rightarrow> ''application/octet-stream'')))"

text \<open>
  \<^verbatim>\<open>list_directory\<close> returns the listing as a file to copy (\<open>Some\<close> of its bytes) or
  \<^verbatim>\<open>None\<close>, after the headers are sent.
  \<^verbatim>\<open>
  def list_directory(self, path):
      try: list = os.listdir(path)
      except OSError:
          self.send_error(HTTPStatus.NOT_FOUND, "No permission to list directory")
          return None
      list.sort(key=lambda a: a.lower())
      r = []
      try: displaypath = urllib.parse.unquote(self.path, errors='surrogatepass')
      except UnicodeDecodeError: displaypath = urllib.parse.unquote(self.path)
      displaypath = html.escape(displaypath, quote=False)
      enc = sys.getfilesystemencoding()
      title = f'Directory listing for {displaypath}'
      r.append('<!DOCTYPE HTML>')
      r.append('<html lang="en">')
      r.append('<head>')
      r.append(f'<meta charset="{enc}">')
      r.append(f'<title>{title}</title>\n</head>')
      r.append(f'<body>\n<h1>{title}</h1>')
      r.append('<hr>\n<ul>')
      for name in list:
          fullname = os.path.join(path, name)
          displayname = linkname = name
          if os.path.isdir(fullname):
              displayname = name + "/"
              linkname = name + "/"
          if os.path.islink(fullname):
              displayname = name + "@"
          r.append('<li><a href="%s">%s</a></li>'
                  % (urllib.parse.quote(linkname, errors='surrogatepass'),
                     html.escape(displayname, quote=False)))
      r.append('</ul>\n<hr>\n</body>\n</html>\n')
      encoded = '\n'.join(r).encode(enc, 'surrogateescape')
      f = io.BytesIO(); f.write(encoded); f.seek(0)
      self.send_response(HTTPStatus.OK)
      self.send_header("Content-type", "text/html; charset=%s" % enc)
      self.send_header("Content-Length", str(len(encoded)))
      self.end_headers()
      return f
  \<close>
  The key of the sort is the string in lower case over all of Unicode, a function of
  the environment; strings compare by their characters' codes.
\<close>

definition listing_item :: "env \<Rightarrow> string \<Rightarrow> string \<Rightarrow> string" where
  "listing_item e p name =
     (let fullname = os_path_join p name;
          linkname = (if os_path_isdir e fullname then name @ ''/'' else name);
          displayname = (if os_path_islink e fullname then name @ ''@''
                         else if os_path_isdir e fullname then name @ ''/'' else name)
      in ''<li><a href='' @ DQ @ urllib_quote e linkname @ DQ @ ''>''
         @ html_escape displayname @ ''</a></li>'')"

definition listing_lines :: "env \<Rightarrow> handler \<Rightarrow> string \<Rightarrow> string list \<Rightarrow> string list" where
  "listing_lines e h p names =
     (let displaypath = html_escape (unquote e (path h));
          enc = getfilesystemencoding e;
          title = ''Directory listing for '' @ displaypath
      in [''<!DOCTYPE HTML>'',
          ''<html lang='' @ DQ @ ''en'' @ DQ @ ''>'',
          ''<head>'',
          ''<meta charset='' @ DQ @ enc @ DQ @ ''>'',
          ''<title>'' @ title @ ''</title>'' @ NL @ ''</head>'',
          ''<body>'' @ NL @ ''<h1>'' @ title @ ''</h1>'',
          ''<hr>'' @ NL @ ''<ul>'']
         @ map (listing_item e p) names
         @ [''</ul>'' @ NL @ ''<hr>'' @ NL @ ''</body>'' @ NL @ ''</html>'' @ NL])"

definition list_directory :: "env \<Rightarrow> string \<Rightarrow> handler \<Rightarrow> string option \<times> handler" where
  "list_directory e p h =
     (case os_listdir e p of
        Inl err \<Rightarrow> (None, send_error e 404 (Some ''No permission to list directory'') None h)
      | Inr names \<Rightarrow>
          let sorted = sort_key (key_lower e) names;
              enc = getfilesystemencoding e;
              encoded = str_encode e enc (join NL (listing_lines e h p sorted))
          in (Some encoded,
              end_headers
                (send_header ''Content-Length'' (str_nat (length encoded))
                  (send_header ''Content-type'' (''text/html; charset='' @ enc)
                    (send_response e 200 None h)))))"

text \<open>
  The test of \<^verbatim>\<open>send_head\<close> on the header \<^verbatim>\<open>If-Modified-Since\<close>:
  \<^verbatim>\<open>
  if ("If-Modified-Since" in self.headers and "If-None-Match" not in self.headers):
      try: ims = email.utils.parsedate_to_datetime(self.headers["If-Modified-Since"])
      except (TypeError, IndexError, OverflowError, ValueError): pass
      else:
          if ims.tzinfo is None: ims = ims.replace(tzinfo=datetime.timezone.utc)
          if ims.tzinfo is datetime.timezone.utc:
              last_modif = datetime.datetime.fromtimestamp(fs.st_mtime, datetime.timezone.utc)
              last_modif = last_modif.replace(microsecond=0)
              if last_modif <= ims:
                  self.send_response(HTTPStatus.NOT_MODIFIED)
                  self.end_headers()
                  f.close()
                  return None
  \<close>
\<close>

definition not_modified :: "env \<Rightarrow> handler \<Rightarrow> file_obj \<Rightarrow> bool" where
  "not_modified e h f =
     (case headers_get (headers h) ''If-Modified-Since'' of
        None \<Rightarrow> False
      | Some v \<Rightarrow>
          if headers_get (headers h) ''If-None-Match'' \<noteq> None then False
          else (case parsedate_to_datetime e v of
                  IllFormed \<Rightarrow> False
                | Naive ims \<Rightarrow> st_mtime f \<le> ims
                | Utc ims \<Rightarrow> st_mtime f \<le> ims
                | OtherZone ims \<Rightarrow> False))"

text \<open>
  \<^verbatim>\<open>send_head\<close> from \<^verbatim>\<open>ctype = self.guess_type(path)\<close> on, for the path \<open>p\<close> of a file
  (the requested one, or the index file of a directory):
  \<^verbatim>\<open>
  ctype = self.guess_type(path)
  if path.endswith("/"):
      self.send_error(HTTPStatus.NOT_FOUND, "File not found")
      return None
  try: f = open(path, 'rb')
  except OSError:
      self.send_error(HTTPStatus.NOT_FOUND, "File not found")
      return None
  fs = os.fstat(f.fileno())
  ... the test on If-Modified-Since ...
  self.send_response(HTTPStatus.OK)
  self.send_header("Content-type", ctype)
  self.send_header("Content-Length", str(fs[6]))
  self.send_header("Last-Modified", self.date_time_string(fs.st_mtime))
  self.end_headers()
  return f
  \<close>
\<close>

definition send_head_file :: "env \<Rightarrow> string \<Rightarrow> handler \<Rightarrow> string option \<times> handler" where
  "send_head_file e p h =
     (let ctype = guess_type e p
      in if endswith p ''/'' then (None, send_error e 404 (Some ''File not found'') None h)
         else
           case open_rb e p of
             Inl err \<Rightarrow> (None, send_error e 404 (Some ''File not found'') None h)
           | Inr f \<Rightarrow>
               if not_modified e h f then (None, end_headers (send_response e 304 None h))
               else
                 (Some (content f),
                  end_headers
                    (send_header ''Last-Modified'' (date_time_string e (Some (st_mtime f)))
                      (send_header ''Content-Length'' (str_nat (st_size f))
                        (send_header ''Content-type'' ctype
                          (send_response e 200 None h))))))"

text \<open>
  \<^verbatim>\<open>
  def send_head(self):
      path = self.translate_path(self.path)
      f = None
      if os.path.isdir(path):
          parts = urllib.parse.urlsplit(self.path)
          if not parts.path.endswith('/'):
              self.send_response(HTTPStatus.MOVED_PERMANENTLY)
              new_parts = (parts[0], parts[1], parts[2] + '/', parts[3], parts[4])
              new_url = urllib.parse.urlunsplit(new_parts)
              self.send_header("Location", new_url)
              self.send_header("Content-Length", "0")
              self.end_headers()
              return None
          for index in "index.html", "index.htm":
              index = os.path.join(path, index)
              if os.path.isfile(index):
                  path = index
                  break
          else:
              return self.list_directory(path)
      ctype = self.guess_type(path)
      ...
  \<close>
\<close>

definition send_head :: "env \<Rightarrow> handler \<Rightarrow> string option \<times> handler" where
  "send_head e h =
     (let p = translate_path e h (path h)
      in if os_path_isdir e p then
           (case urllib_urlsplit e (path h) of
              (scheme, netloc, url_path, query, fragment) \<Rightarrow>
                if \<not> endswith url_path ''/'' then
                  (let new_url = urllib_urlunsplit e (scheme, netloc, url_path @ ''/'', query, fragment)
                   in (None,
                       end_headers
                         (send_header ''Content-Length'' ''0''
                           (send_header ''Location'' new_url
                             (send_response e 301 None h)))))
                else if os_path_isfile e (os_path_join p ''index.html'')
                  then send_head_file e (os_path_join p ''index.html'') h
                else if os_path_isfile e (os_path_join p ''index.htm'')
                  then send_head_file e (os_path_join p ''index.htm'') h
                else list_directory e p h)
         else send_head_file e p h)"

text \<open>
  \<^verbatim>\<open>
  def do_GET(self):
      f = self.send_head()
      if f:
          try: self.copyfile(f, self.wfile)
          finally: f.close()

  def do_HEAD(self):
      f = self.send_head()
      if f: f.close()
  \<close>
\<close>

definition do_GET :: "env \<Rightarrow> handler \<Rightarrow> handler" where
  "do_GET e h =
     (case send_head e h of
        (Some f, h') \<Rightarrow> h'\<lparr>wfile := wfile h' @ f\<rparr>
      | (None, h') \<Rightarrow> h')"

definition do_HEAD :: "env \<Rightarrow> handler \<Rightarrow> handler" where
  "do_HEAD e h = snd (send_head e h)"

subsection \<open>One request, one connection\<close>

text \<open>
  A request as it arrives: the line that \<^verbatim>\<open>rfile.readline(65537)\<close> returns and what
  \<^verbatim>\<open>parse_headers\<close> makes of the lines after it.
\<close>

record request =
  raw_requestline :: string
  header_lines :: parsed_headers

text \<open>
  \<^verbatim>\<open>
  def handle_one_request(self):
      self.raw_requestline = self.rfile.readline(65537)
      if len(self.raw_requestline) > 65536:
          self.requestline = ''; self.request_version = ''; self.command = ''
          self.send_error(HTTPStatus.REQUEST_URI_TOO_LONG)
          return
      if not self.raw_requestline:
          self.close_connection = True
          return
      if not self.parse_request(): return
      mname = 'do_' + self.command
      if not hasattr(self, mname):
          self.send_error(HTTPStatus.NOT_IMPLEMENTED, "Unsupported method (%r)" % self.command)
          return
      method = getattr(self, mname)
      method()
      self.wfile.flush()
  \<close>
  The class has the methods \<^verbatim>\<open>do_GET\<close> and \<^verbatim>\<open>do_HEAD\<close> and no other whose name starts
  with \<^verbatim>\<open>do_\<close>. No time limit is set on the socket, so \<^verbatim>\<open>TimeoutError\<close> is not raised.
\<close>

definition handle_one_request :: "env \<Rightarrow> request \<Rightarrow> handler \<Rightarrow> handler" where
  "handle_one_request e r h =
     (if length (raw_requestline r) > 65536 then
        send_error e 414 None None (h\<lparr>requestline := [], request_version := [], command := Some []\<rparr>)
      else if raw_requestline r = [] then h\<lparr>close_connection := True\<rparr>
      else
        case parse_request e (raw_requestline r) (header_lines r) h of
          (False, h') \<Rightarrow> h'
        | (True, h') \<Rightarrow>
            (case command h' of
               None \<Rightarrow> h'
             | Some c \<Rightarrow>
                 if c = ''GET'' then do_GET e h'
                 else if c = ''HEAD'' then do_HEAD e h'
                 else send_error e 501 (Some (''Unsupported method ('' @ py_repr e c @ '')''))
                        None h'))"

text \<open>
  \<^verbatim>\<open>
  def handle(self):
      self.close_connection = True
      self.handle_one_request()
      while not self.close_connection:
          self.handle_one_request()
  \<close>
  The requests that the client sends on the connection are a list; after the last one
  \<^verbatim>\<open>readline\<close> returns the empty line of the end of the stream.
\<close>

fun handle_loop :: "env \<Rightarrow> request list \<Rightarrow> handler \<Rightarrow> handler" where
  "handle_loop e [] h = h\<lparr>close_connection := True\<rparr>"
| "handle_loop e (r # rs) h =
     (let h' = handle_one_request e r h
      in if close_connection h' then h' else handle_loop e rs h')"

definition handle :: "env \<Rightarrow> request list \<Rightarrow> handler \<Rightarrow> handler" where
  "handle e rs h = handle_loop e rs (h\<lparr>close_connection := True\<rparr>)"

text \<open>
  A handler at its construction: \<^verbatim>\<open>SimpleHTTPRequestHandler.__init__\<close> sets
  \<^verbatim>\<open>self.directory = os.fspath(os.getcwd())\<close>; nothing is buffered or written yet.
\<close>

definition new_handler :: "env \<Rightarrow> handler" where
  "new_handler e =
     \<lparr>directory = os_getcwd e, command = None, path = [], request_version = [],
      requestline = [], headers = [], close_connection = True, headers_buffer = [],
      wfile = []\<rparr>"

section \<open>The server: \<^verbatim>\<open>socketserver.TCPServer\<close>\<close>

text \<open>
  What reaches the process while \<^verbatim>\<open>serve_forever\<close> runs, in order:
  \<^item> \<open>Connection rs\<close>: a client connects and sends the requests \<open>rs\<close>;
  \<^item> \<open>AcceptError\<close>: the listening socket is readable and \<^verbatim>\<open>accept\<close> raises \<^verbatim>\<open>OSError\<close>;
  \<^item> \<open>HandlerError ex out\<close>: a client connects and the handler raises the exception
    \<open>ex\<close> of class \<^verbatim>\<open>Exception\<close> (a broken connection, say) after it wrote \<open>out\<close>;
  \<^item> \<open>SigIntInHandler out\<close>: a client connects and SIGINT arrives while the handler
    runs, after it wrote \<open>out\<close>;
  \<^item> \<open>SigInt\<close>: SIGINT arrives while the loop waits in \<^verbatim>\<open>select\<close>.
\<close>

datatype event =
    Connection "request list"
  | AcceptError
  | HandlerError py_exception string
  | SigIntInHandler string
  | SigInt

text \<open>
  What the server does to connections, in order; connections are numbered as they are
  accepted. \<open>Responded n out\<close> is the bytes that the handler wrote to connection \<open>n\<close>.
\<close>

datatype action =
    Accepted nat
  | Responded nat string
  | Closed nat

text \<open>
  The table of the operating system that says which process listens on which TCP port,
  and the server object: its address, whether its socket is open, the table, its
  actions so far, and the connections for which \<^verbatim>\<open>handle_error\<close> printed a traceback.
\<close>

type_synonym port_table = "nat \<Rightarrow> nat option"

record server =
  server_address :: "string \<times> nat"
  socket_open :: bool
  listeners :: port_table
  actions :: "action list"
  handle_errors :: "nat list"

text \<open>
  \<^verbatim>\<open>socket.bind(address)\<close> followed by \<^verbatim>\<open>socket.listen\<close>, for the process \<open>pid\<close>: the
  operating system refuses when the process may not bind the address (\<^verbatim>\<open>EACCES\<close>) or
  when a socket listens on the port already (\<^verbatim>\<open>EADDRINUSE\<close>; \<^verbatim>\<open>TCPServer\<close> has
  \<^verbatim>\<open>allow_reuse_address = False\<close> and sets no socket option).
\<close>

definition socket_bind ::
  "env \<Rightarrow> nat \<Rightarrow> port_table \<Rightarrow> string \<times> nat \<Rightarrow> os_error + port_table" where
  "socket_bind e pid tbl address =
     (if \<not> bind_permitted e then Inl (PermissionError ''[Errno 13] Permission denied'')
      else case tbl (snd address) of
             Some owner \<Rightarrow> Inl (OtherOSError ''[Errno 98] Address already in use'')
           | None \<Rightarrow> Inr (tbl(snd address \<mapsto> pid)))"

text \<open>
  \<^verbatim>\<open>socket.close()\<close> of the server's socket: if the process \<open>pid\<close> listens on the port,
  the port is free again.
\<close>

definition socket_close :: "nat \<Rightarrow> port_table \<Rightarrow> string \<times> nat \<Rightarrow> port_table" where
  "socket_close pid tbl address =
     (if tbl (snd address) = Some pid then tbl(snd address := None) else tbl)"

text \<open>
  \<^verbatim>\<open>
  def __init__(self, server_address, RequestHandlerClass, bind_and_activate=True):
      BaseServer.__init__(self, server_address, RequestHandlerClass)
      self.socket = socket.socket(self.address_family, self.socket_type)
      if bind_and_activate:
          try:
              self.server_bind()
              self.server_activate()
          except:
              self.server_close()
              raise
  \<close>
  The socket that failed to bind is not in the table, so closing it leaves the table
  as it is.
\<close>

definition TCPServer :: "env \<Rightarrow> nat \<Rightarrow> port_table \<Rightarrow> string \<times> nat \<Rightarrow> os_error + server" where
  "TCPServer e pid tbl address =
     (case socket_bind e pid tbl address of
        Inl err \<Rightarrow> Inl err
      | Inr tbl' \<Rightarrow>
          Inr \<lparr>server_address = address, socket_open = True, listeners = tbl',
               actions = [], handle_errors = []\<rparr>)"

text \<open>
  \<^verbatim>\<open>server_close\<close>, which \<^verbatim>\<open>__exit__\<close> calls at the end of the \<^verbatim>\<open>with\<close> statement.
\<close>

definition server_close :: "nat \<Rightarrow> server \<Rightarrow> server" where
  "server_close pid s =
     s\<lparr>socket_open := False, listeners := socket_close pid (listeners s) (server_address s)\<rparr>"

text \<open>
  \<^verbatim>\<open>
  def _handle_request_noblock(self):
      try: request, client_address = self.get_request()
      except OSError: return
      if self.verify_request(request, client_address):
          try: self.process_request(request, client_address)
          except Exception:
              self.handle_error(request, client_address)
              self.shutdown_request(request)
          except:
              self.shutdown_request(request)
              raise
      else:
          self.shutdown_request(request)

  def process_request(self, request, client_address):
      self.finish_request(request, client_address)
      self.shutdown_request(request)

  def finish_request(self, request, client_address):
      self.RequestHandlerClass(request, client_address, self)
  \<close>
  \<^verbatim>\<open>verify_request\<close> returns \<^verbatim>\<open>True\<close>. The constructor of the handler runs \<^verbatim>\<open>handle\<close>.
  The result is the exception that leaves the method, if one does, and the server.
\<close>

definition is_Accepted :: "action \<Rightarrow> bool" where
  "is_Accepted a = (case a of Accepted n \<Rightarrow> True | Responded n out \<Rightarrow> False | Closed n \<Rightarrow> False)"

definition next_connection :: "server \<Rightarrow> nat" where
  "next_connection s = length (filter is_Accepted (actions s))"

definition handle_request_noblock :: "env \<Rightarrow> event \<Rightarrow> server \<Rightarrow> py_exception option \<times> server" where
  "handle_request_noblock e ev s =
     (let n = next_connection s
      in case ev of
           AcceptError \<Rightarrow> (None, s)
         | Connection rs \<Rightarrow>
             (None, s\<lparr>actions := actions s @
                [Accepted n, Responded n (wfile (handle e rs (new_handler e))), Closed n]\<rparr>)
         | HandlerError ex out \<Rightarrow>
             (None, s\<lparr>actions := actions s @ [Accepted n, Responded n out, Closed n],
                      handle_errors := handle_errors s @ [n]\<rparr>)
         | SigIntInHandler out \<Rightarrow>
             (Some KeyboardInterrupt,
              s\<lparr>actions := actions s @ [Accepted n, Responded n out, Closed n]\<rparr>)
         | SigInt \<Rightarrow> (Some KeyboardInterrupt, s))"

text \<open>
  \<^verbatim>\<open>
  def serve_forever(self, poll_interval=0.5):
      self.__is_shut_down.clear()
      try:
          with _ServerSelector() as selector:
              selector.register(self, selectors.EVENT_READ)
              while not self.__shutdown_request:
                  ready = selector.select(poll_interval)
                  if self.__shutdown_request: break
                  if ready: self._handle_request_noblock()
                  self.service_actions()
      finally:
          self.__shutdown_request = False
          self.__is_shut_down.set()
  \<close>
  Nothing in the program calls \<^verbatim>\<open>shutdown\<close>, so the loop ends only by an exception. The
  result is \<open>Some\<close> of the exception that ends the loop, or \<open>None\<close> when the events are
  used up and the loop still waits in \<^verbatim>\<open>select\<close>. SIGINT during \<^verbatim>\<open>select\<close> raises
  \<^verbatim>\<open>KeyboardInterrupt\<close> there.
\<close>

fun serve_forever :: "env \<Rightarrow> event list \<Rightarrow> server \<Rightarrow> py_exception option \<times> server" where
  "serve_forever e [] s = (None, s)"
| "serve_forever e (ev # evs) s =
     (case handle_request_noblock e ev s of
        (Some ex, s') \<Rightarrow> (Some ex, s')
      | (None, s') \<Rightarrow> serve_forever e evs s')"

section \<open>The script\<close>

definition PORT :: nat where
  "PORT = 8080"

text \<open>
  The state of the process when it has ended or when the events are used up:
  \<open>exit_status\<close> is \<open>None\<close> while the process runs; \<open>stdout\<close> is the printed lines;
  \<open>stderr\<close> is the lines of the traceback of an exception that nothing caught;
  \<open>ports\<close> is the table of listening ports; \<open>served\<close> is what the server did.
\<close>

record outcome =
  exit_status :: "nat option"
  stdout :: "string list"
  stderr :: "string list"
  ports :: port_table
  served :: "action list"

text \<open>
  The last line of a traceback: the class of the exception and its message.
\<close>

definition format_exception_only :: "py_exception \<Rightarrow> string" where
  "format_exception_only ex =
     (case ex of
        OSError (FileNotFoundError m) \<Rightarrow> ''FileNotFoundError: '' @ m
      | OSError (NotADirectoryError m) \<Rightarrow> ''NotADirectoryError: '' @ m
      | OSError (PermissionError m) \<Rightarrow> ''PermissionError: '' @ m
      | OSError (OtherOSError m) \<Rightarrow> ''OSError: '' @ m
      | Error m \<Rightarrow> ''Exception: '' @ m
      | KeyboardInterrupt \<Rightarrow> ''KeyboardInterrupt'')"

text \<open>
  An exception that leaves the script ends the process: the interpreter prints the
  traceback (its lines for the stack frames are left out here) and exits with status 1.
  After \<^verbatim>\<open>KeyboardInterrupt\<close> it ends the process with the signal SIGINT instead, which
  the parent process sees as the status 128 + 2.
\<close>

definition exit_code :: "py_exception \<Rightarrow> nat" where
  "exit_code ex = (case ex of KeyboardInterrupt \<Rightarrow> 130 | OSError err \<Rightarrow> 1 | Error m \<Rightarrow> 1)"

definition uncaught :: "py_exception \<Rightarrow> string list \<Rightarrow> port_table \<Rightarrow> action list \<Rightarrow> outcome" where
  "uncaught ex out tbl acts =
     \<lparr>exit_status = Some (exit_code ex), stdout = out,
      stderr = [''Traceback (most recent call last):'', format_exception_only ex],
      ports = tbl, served = acts\<rparr>"

text \<open>
  Lines 20 to 22, on the list that \<^verbatim>\<open>os.listdir('.')\<close> returned:
  \<^verbatim>\<open>
  for file in os.listdir('.'):
      if file.startswith('bcrdf-'):
          print(f"   - {file}")
  \<close>
\<close>

fun print_files :: "string list \<Rightarrow> string list \<Rightarrow> string list" where
  "print_files [] out = out"
| "print_files (file # files) out =
     (if startswith file ''bcrdf-'' then print_files files (out @ [''   - '' @ file])
      else print_files files out)"

text \<open>The four pictographs of the messages, in UTF-8.\<close>

definition rocket :: string where
  "rocket = [CHR 0xF0, CHR 0x9F, CHR 0x9A, CHR 0x80]"

definition file_folder :: string where
  "file_folder = [CHR 0xF0, CHR 0x9F, CHR 0x93, CHR 0x81]"

definition clipboard :: string where
  "clipboard = [CHR 0xF0, CHR 0x9F, CHR 0x93, CHR 0x8B]"

definition check_mark :: string where
  "check_mark = [CHR 0xE2, CHR 0x9C, CHR 0x85]"

text \<open>
  Lines 25 and 26, for the process \<open>pid\<close>, the table \<open>tbl\<close> of listening ports and the
  events that follow:
  \<^verbatim>\<open>
  with socketserver.TCPServer(("", PORT), MyHTTPRequestHandler) as httpd:
      httpd.serve_forever()
  \<close>
  The result is the exception that leaves the statement, if any, the table and the
  actions of the server after it: when \<^verbatim>\<open>serve_forever\<close> raises, \<^verbatim>\<open>__exit__\<close> closes the
  server and the exception goes on.
\<close>

definition run_server ::
  "env \<Rightarrow> nat \<Rightarrow> port_table \<Rightarrow> event list \<Rightarrow> py_exception option \<times> port_table \<times> action list" where
  "run_server e pid tbl events =
     (case TCPServer e pid tbl ([], PORT) of
        Inl err \<Rightarrow> (Some (OSError err), tbl, [])
      | Inr httpd \<Rightarrow>
          (case serve_forever e events httpd of
             (Some ex, httpd') \<Rightarrow>
               (Some ex, listeners (server_close pid httpd'), actions httpd')
           | (None, httpd') \<Rightarrow> (None, listeners httpd', actions httpd')))"

text \<open>
  The script from its first statement:
  \<^verbatim>\<open>
  PORT = 8080
  os.chdir('dist')
  class MyHTTPRequestHandler ...
  print(f"... Test server starting on http://localhost:{PORT}")
  print(f"... Serving files from: {os.getcwd()}")
  print("... Available files:")
  for file in os.listdir('.'): ...
  print("... Server ready! Press Ctrl+C to stop")
  with socketserver.TCPServer(("", PORT), MyHTTPRequestHandler) as httpd:
      httpd.serve_forever()
  \<close>
\<close>

definition main :: "env \<Rightarrow> nat \<Rightarrow> port_table \<Rightarrow> event list \<Rightarrow> outcome" where
  "main e pid tbl events =
     (case os_chdir e ''dist'' of
        Some err \<Rightarrow> uncaught (OSError err) [] tbl []
      | None \<Rightarrow>
          (let out1 = [rocket @ '' Test server starting on http://localhost:'' @ str_nat PORT,
                       file_folder @ '' Serving files from: '' @ os_getcwd e,
                       clipboard @ '' Available files:'']
           in (case os_listdir e ''.'' of
                 Inl err \<Rightarrow> uncaught (OSError err) out1 tbl []
               | Inr files \<Rightarrow>
                   (let out2 = print_files files out1;
                        out3 = out2 @ [check_mark @ '' Server ready! Press Ctrl+C to stop'']
                    in (case run_server e pid tbl events of
                          (Some ex, tbl', acts) \<Rightarrow> uncaught ex out3 tbl' acts
                        | (None, tbl', acts) \<Rightarrow>
                            \<lparr>exit_status = None, stdout = out3, stderr = [], ports = tbl',
                             served = acts\<rparr>)))))"

section \<open>Properties of runs\<close>

text \<open>The events that raise \<^verbatim>\<open>KeyboardInterrupt\<close> in the main thread.\<close>

definition is_interrupt :: "event \<Rightarrow> bool" where
  "is_interrupt ev =
     (case ev of
        Connection rs \<Rightarrow> False
      | AcceptError \<Rightarrow> False
      | HandlerError ex out \<Rightarrow> False
      | SigIntInHandler out \<Rightarrow> True
      | SigInt \<Rightarrow> True)"

text \<open>
  A list of actions is sequential from the connection \<open>cur\<close> in progress (\<open>None\<close>: no
  connection) when a connection is accepted only while none is in progress, and the
  server writes to and closes only the connection in progress.
\<close>

fun sequential :: "nat option \<Rightarrow> action list \<Rightarrow> bool" where
  "sequential cur [] = True"
| "sequential cur (Accepted n # acts) = (cur = None \<and> sequential (Some n) acts)"
| "sequential cur (Responded n out # acts) = (cur = Some n \<and> sequential cur acts)"
| "sequential cur (Closed n # acts) = (cur = Some n \<and> sequential None acts)"

section \<open>A concrete environment\<close>

text \<open>
  The scenario of the specification: the directory \<^verbatim>\<open>dist\<close> of \<^verbatim>\<open>/srv\<close> holds the files
  \<^verbatim>\<open>bcrdf-v1.bin\<close> and \<^verbatim>\<open>notes.txt\<close> and an empty directory \<^verbatim>\<open>sub\<close>. The library
  functions have the values that the library gives on the strings of this scenario:
  no path has a percent sign, a query or a fragment, and every string is ASCII.
\<close>

definition example_env :: env where
  "example_env =
     \<lparr>os_chdir = (\<lambda>p. if p = ''dist'' then None
                      else Some (FileNotFoundError ''[Errno 2] No such file or directory'')),
      os_getcwd = ''/srv/dist'',
      os_listdir = (\<lambda>p. if p = ''.'' \<or> p = ''/srv/dist/''
                          then Inr [''notes.txt'', ''bcrdf-v1.bin'', ''sub'']
                        else if p = ''/srv/dist/sub/'' then Inr []
                        else Inl (FileNotFoundError ''[Errno 2] No such file or directory'')),
      os_path_isdir = (\<lambda>p. p = ''/srv/dist'' \<or> p = ''/srv/dist/'' \<or> p = ''/srv/dist/sub''
                             \<or> p = ''/srv/dist/sub/''),
      os_path_isfile = (\<lambda>p. p = ''/srv/dist/bcrdf-v1.bin'' \<or> p = ''/srv/dist/notes.txt''),
      os_path_islink = (\<lambda>p. False),
      open_rb = (\<lambda>p. if p = ''/srv/dist/bcrdf-v1.bin''
                       then Inr \<lparr>content = ''BINARY'', st_size = 6, st_mtime = 1000\<rparr>
                     else if p = ''/srv/dist/notes.txt''
                       then Inr \<lparr>content = ''hello'', st_size = 5, st_mtime = 2000\<rparr>
                     else Inl (FileNotFoundError ''[Errno 2] No such file or directory'')),
      bind_permitted = True,
      version_string = ''SimpleHTTP/0.6 Python/3.11.10'',
      date_time_string = (\<lambda>t. case t of None \<Rightarrow> ''Wed, 04 Nov 2026 12:00:00 GMT''
                                   | Some s \<Rightarrow> ''Thu, 01 Jan 1970 00:16:40 GMT''),
      urllib_unquote = (\<lambda>s. s),
      urllib_quote = (\<lambda>s. s),
      urllib_urlsplit = (\<lambda>u. ([], [], u, [], [])),
      urllib_urlunsplit = (\<lambda>(scheme, netloc, url, query, fragment). url),
      mimetypes_guess_type = (\<lambda>p. if endswith p ''.txt'' then Some ''text/plain'' else None),
      parsedate_to_datetime =
        (\<lambda>v. if v = ''Thu, 01 Jan 1970 01:00:00 GMT'' then Utc 3600 else IllFormed),
      getfilesystemencoding = ''utf-8'',
      str_encode = (\<lambda>enc s. s),
      py_repr = (\<lambda>s. [CHR 0x27] @ s @ [CHR 0x27]),
      key_lower = lower\<rparr>"

text \<open>A request of one line and the header fields \<open>hs\<close>.\<close>

definition plain_request :: "string \<Rightarrow> (string \<times> string) list \<Rightarrow> request" where
  "plain_request line hs = \<lparr>raw_requestline = line @ CRLF, header_lines = Headers hs\<rparr>"

text \<open>
  A simple name: a path component that names an entry of the directory it stands in,
  not the directory itself, its parent or a path.
\<close>

definition simple_name :: "string \<Rightarrow> bool" where
  "simple_name w = (w \<noteq> [] \<and> CHR ''/'' \<notin> set w \<and> w \<noteq> ''.'' \<and> w \<noteq> ''..'')"

text \<open>The header line that the script adds.\<close>

definition cors_header :: string where
  "cors_header = ''Access-Control-Allow-Origin: *'' @ CRLF"

section \<open>The start of the process\<close>

text \<open>
  The equation of \<open>str_nat\<close> unfolds without end on a variable; on a numeral it
  computes the digits.
\<close>

lemma str_nat_numeral [simp]:
  "str_nat (numeral k) =
     (if (numeral k :: nat) < 10 then [digit_char (numeral k)]
      else str_nat (numeral k div 10) @ [digit_char (numeral k mod 10)])"
  by (rule str_nat.simps)


lemma startswith_iff: "startswith s p \<longleftrightarrow> (\<exists>r. s = p @ r)"
  unfolding startswith_def
  by (metis append_eq_conv_conj append_take_drop_id)




text \<open>
  Claim C3. When \<^verbatim>\<open>os.chdir('dist')\<close> raises \<^verbatim>\<open>FileNotFoundError\<close>, nothing catches it:
  the process prints the traceback, whose last line names the error and the message of
  the operating system, and exits with status 1. It has printed nothing else, the
  table of listening ports is the one it found, and it has accepted no connection.
\<close>

theorem missing_dist:
  assumes "os_chdir e ''dist'' = Some (FileNotFoundError m)"
  shows "main e pid tbl events =
           \<lparr>exit_status = Some 1, stdout = [],
            stderr = [''Traceback (most recent call last):'', ''FileNotFoundError: '' @ m],
            ports = tbl, served = []\<rparr>"
  using assms by (simp add: main_def uncaught_def exit_code_def format_exception_only_def)

theorem missing_dist_witness:
  "os_chdir (example_env\<lparr>os_chdir := \<lambda>p. Some (FileNotFoundError
       (''[Errno 2] No such file or directory: '' @ [CHR 0x27] @ ''dist'' @ [CHR 0x27]))\<rparr>) ''dist''
     = Some (FileNotFoundError
       (''[Errno 2] No such file or directory: '' @ [CHR 0x27] @ ''dist'' @ [CHR 0x27]))
   \<and> main (example_env\<lparr>os_chdir := \<lambda>p. Some (FileNotFoundError
       (''[Errno 2] No such file or directory: '' @ [CHR 0x27] @ ''dist'' @ [CHR 0x27]))\<rparr>)
       7 Map.empty [Connection [plain_request ''GET / HTTP/1.1'' []]] =
      \<lparr>exit_status = Some 1, stdout = [],
       stderr = [''Traceback (most recent call last):'',
                 ''FileNotFoundError: [Errno 2] No such file or directory: ''
                 @ [CHR 0x27] @ ''dist'' @ [CHR 0x27]],
       ports = Map.empty, served = []\<rparr>"
proof -
  have h: "os_chdir (example_env\<lparr>os_chdir := \<lambda>p. Some (FileNotFoundError
       (''[Errno 2] No such file or directory: '' @ [CHR 0x27] @ ''dist'' @ [CHR 0x27]))\<rparr>) ''dist''
     = Some (FileNotFoundError
       (''[Errno 2] No such file or directory: '' @ [CHR 0x27] @ ''dist'' @ [CHR 0x27]))"
    by simp
  show ?thesis
    using h missing_dist [OF h, of 7 Map.empty "[Connection [plain_request ''GET / HTTP/1.1'' []]]"]
    by simp
qed

section \<open>Interrupting the server\<close>

lemma handle_request_noblock_keeps:
  "listeners (snd (handle_request_noblock e ev s)) = listeners s
   \<and> server_address (snd (handle_request_noblock e ev s)) = server_address s"
  by (cases ev) (simp_all add: handle_request_noblock_def Let_def)

lemma handle_request_noblock_raises:
  "fst (handle_request_noblock e ev s) = (if is_interrupt ev then Some KeyboardInterrupt else None)"
  by (cases ev) (simp_all add: handle_request_noblock_def is_interrupt_def Let_def)

lemma serve_forever_keeps:
  "listeners (snd (serve_forever e evs s)) = listeners s
   \<and> server_address (snd (serve_forever e evs s)) = server_address s"
proof (induction evs arbitrary: s)
  case Nil
  show ?case by simp
next
  case (Cons ev evs)
  obtain r s' where h: "handle_request_noblock e ev s = (r, s')"
    by (cases "handle_request_noblock e ev s") auto
  have k: "listeners s' = listeners s \<and> server_address s' = server_address s"
    using handle_request_noblock_keeps [of e ev s] h by simp
  show ?case
  proof (cases r)
    case None
    then show ?thesis using h k Cons.IH [of s'] by simp
  next
    case (Some ex)
    then show ?thesis using h k by simp
  qed
qed

lemma serve_forever_raises:
  "fst (serve_forever e evs s) = (if list_ex is_interrupt evs then Some KeyboardInterrupt else None)"
proof (induction evs arbitrary: s)
  case Nil
  show ?case by simp
next
  case (Cons ev evs)
  obtain r s' where h: "handle_request_noblock e ev s = (r, s')"
    by (cases "handle_request_noblock e ev s") auto
  have r: "r = (if is_interrupt ev then Some KeyboardInterrupt else None)"
    using handle_request_noblock_raises [of e ev s] h by simp
  show ?case
  proof (cases "is_interrupt ev")
    case True
    then show ?thesis using h r by simp
  next
    case False
    then show ?thesis using h r Cons.IH [of s'] by simp
  qed
qed

lemma TCPServer_result:
  "TCPServer e pid tbl address =
     (if \<not> bind_permitted e then Inl (PermissionError ''[Errno 13] Permission denied'')
      else if tbl (snd address) \<noteq> None
        then Inl (OtherOSError ''[Errno 98] Address already in use'')
      else Inr \<lparr>server_address = address, socket_open = True,
                listeners = tbl(snd address \<mapsto> pid), actions = [], handle_errors = []\<rparr>)"
  by (auto simp: TCPServer_def socket_bind_def split: option.splits)

lemma run_server_raises:
  "fst (run_server e pid tbl events) =
     (if \<not> bind_permitted e then Some (OSError (PermissionError ''[Errno 13] Permission denied''))
      else if tbl PORT \<noteq> None
        then Some (OSError (OtherOSError ''[Errno 98] Address already in use''))
      else if list_ex is_interrupt events then Some KeyboardInterrupt else None)"
proof -
  let ?s = "\<lparr>server_address = ([], PORT), socket_open = True,
             listeners = tbl(PORT \<mapsto> pid), actions = [], handle_errors = []\<rparr>"
  obtain r s' where sf: "serve_forever e events ?s = (r, s')"
    by (cases "serve_forever e events ?s") auto
  have "r = (if list_ex is_interrupt events then Some KeyboardInterrupt else None)"
    using serve_forever_raises [of e events ?s] sf by simp
  then show ?thesis
    using sf by (simp add: run_server_def TCPServer_result)
qed

lemma run_server_ports:
  "fst (snd (run_server e pid tbl events)) =
     (if bind_permitted e \<and> tbl PORT = None \<and> \<not> list_ex is_interrupt events
      then tbl(PORT \<mapsto> pid) else tbl)"
proof -
  let ?s = "\<lparr>server_address = ([], PORT), socket_open = True,
             listeners = tbl(PORT \<mapsto> pid), actions = [], handle_errors = []\<rparr>"
  obtain r s' where sf: "serve_forever e events ?s = (r, s')"
    by (cases "serve_forever e events ?s") auto
  have r: "r = (if list_ex is_interrupt events then Some KeyboardInterrupt else None)"
    using serve_forever_raises [of e events ?s] sf by simp
  have k: "listeners s' = tbl(PORT \<mapsto> pid) \<and> server_address s' = ([], PORT)"
    using serve_forever_keeps [of e events ?s] sf by simp
  show ?thesis
    using sf r k
    by (auto simp: run_server_def TCPServer_result server_close_def socket_close_def)
qed


lemma exit_code_pos: "exit_code ex \<noteq> 0"
  by (cases ex) (simp_all add: exit_code_def)

lemma main_exit_status:
  "exit_status (main e pid tbl events) =
     (case os_chdir e ''dist'' of
        Some err \<Rightarrow> Some 1
      | None \<Rightarrow>
          (case os_listdir e ''.'' of
             Inl err \<Rightarrow> Some 1
           | Inr files \<Rightarrow> map_option exit_code (fst (run_server e pid tbl events))))"
proof -
  obtain ex tbl' acts where rs: "run_server e pid tbl events = (ex, tbl', acts)"
    by (cases "run_server e pid tbl events") auto
  show ?thesis
    using rs
    by (cases ex)
      (simp_all add: main_def uncaught_def exit_code_def Let_def
        split: option.splits sum.splits)
qed

lemma main_never_exits_0: "exit_status (main e pid tbl events) \<noteq> Some 0"
  unfolding main_exit_status
  by (auto simp: exit_code_pos split: option.splits sum.splits)

text \<open>
  Claim C2, as the code has it. The script has no \<^verbatim>\<open>try\<close> statement. When SIGINT
  arrives while \<^verbatim>\<open>serve_forever\<close> runs (in \<^verbatim>\<open>select\<close> or in a handler), after a start
  that bound the port, \<^verbatim>\<open>KeyboardInterrupt\<close> leaves \<^verbatim>\<open>serve_forever\<close>; the \<^verbatim>\<open>with\<close>
  statement closes the server, so the table of listening ports is again the one that
  the process found; nothing catches the exception, so the process prints the traceback
  and ends with the status 130 of a process that SIGINT ended, not with status 0.
\<close>

theorem interrupt_ends_process:
  assumes "os_chdir e ''dist'' = None" and "os_listdir e ''.'' = Inr files"
    and "bind_permitted e" and "tbl PORT = None"
    and "list_ex is_interrupt events"
  shows "exit_status (main e pid tbl events) = Some 130
         \<and> stderr (main e pid tbl events)
             = [''Traceback (most recent call last):'', ''KeyboardInterrupt'']
         \<and> ports (main e pid tbl events) = tbl"
proof -
  obtain ex tbl' acts where rs: "run_server e pid tbl events = (ex, tbl', acts)"
    by (cases "run_server e pid tbl events") auto
  have ex: "ex = Some KeyboardInterrupt"
    using run_server_raises [of e pid tbl events] rs assms by simp
  have tbl': "tbl' = tbl"
    using run_server_ports [of e pid tbl events] rs assms by simp
  show ?thesis
    using assms rs ex tbl'
    by (simp add: main_def uncaught_def exit_code_def format_exception_only_def Let_def)
qed

text \<open>
  The claim's exit status fails at the run of the concrete environment in which SIGINT
  is the first event: the status is 130. By \<open>main_never_exits_0\<close> no run of the script
  ends with status 0.
\<close>

theorem interrupt_exit_counterexample:
  "exit_status (main example_env 7 Map.empty [SigInt]) = Some 130
   \<and> exit_status (main example_env 7 Map.empty [SigInt]) \<noteq> Some 0"
proof -
  have "fst (run_server example_env 7 Map.empty [SigInt]) = Some KeyboardInterrupt"
    unfolding run_server_raises by (simp add: example_env_def is_interrupt_def)
  then show ?thesis
    unfolding main_exit_status by (simp add: example_env_def exit_code_def)
qed

theorem interrupt_ends_process_witness:
  "os_chdir example_env ''dist'' = None
   \<and> os_listdir example_env ''.'' = Inr [''notes.txt'', ''bcrdf-v1.bin'', ''sub'']
   \<and> bind_permitted example_env \<and> Map.empty PORT = (None :: nat option)
   \<and> list_ex is_interrupt [Connection [plain_request ''GET / HTTP/1.1'' []], SigInt]
   \<and> exit_status (main example_env 7 Map.empty
        [Connection [plain_request ''GET / HTTP/1.1'' []], SigInt]) = Some 130
   \<and> stderr (main example_env 7 Map.empty
        [Connection [plain_request ''GET / HTTP/1.1'' []], SigInt])
      = [''Traceback (most recent call last):'', ''KeyboardInterrupt'']
   \<and> ports (main example_env 7 Map.empty
        [Connection [plain_request ''GET / HTTP/1.1'' []], SigInt]) = Map.empty"
proof -
  have h1: "os_chdir example_env ''dist'' = None"
    by (simp add: example_env_def)
  have h2: "os_listdir example_env ''.'' = Inr [''notes.txt'', ''bcrdf-v1.bin'', ''sub'']"
    by (simp add: example_env_def)
  have h3: "bind_permitted example_env"
    by (simp add: example_env_def)
  have h4: "Map.empty PORT = (None :: nat option)"
    by simp
  have h5: "list_ex is_interrupt [Connection [plain_request ''GET / HTTP/1.1'' []], SigInt]"
    by (simp add: is_interrupt_def)
  show ?thesis
    using h1 h2 h3 h4 h5 interrupt_ends_process [OF h1 h2 h3 h4 h5, of 7]
    by simp
qed

section \<open>Binding the port\<close>




section \<open>One connection at a time\<close>

lemma sequential_block:
  "sequential None ([Accepted n, Responded n out, Closed n] @ rest) = sequential None rest"
  by simp







section \<open>Paths stay under the serving root\<close>

lemma endswith_slash: "endswith a ''/'' \<longleftrightarrow> (a \<noteq> [] \<and> last a = CHR ''/'')"
proof (cases a rule: rev_cases)
  case Nil
  then show ?thesis by (simp add: endswith_def)
next
  case (snoc ys y)
  then show ?thesis by (auto simp: endswith_def)
qed

lemma startswith_slash: "startswith b ''/'' \<longleftrightarrow> (b \<noteq> [] \<and> hd b = CHR ''/'')"
  by (cases b) (auto simp: startswith_def)

lemma dropWhile_all: "dropWhile P xs = [] \<longleftrightarrow> (\<forall>x \<in> set xs. P x)"
  by (induction xs) auto

lemma all_slashes: "(\<forall>c \<in> set xs. c = x) \<longleftrightarrow> xs = replicate (length xs) x"
  by (induction xs) auto

lemma simple_name_last: "simple_name w \<Longrightarrow> last w \<noteq> CHR ''/''"
proof
  assume s: "simple_name w" and l: "last w = CHR ''/''"
  from s have "w \<noteq> []" by (simp add: simple_name_def)
  then have "last w \<in> set w" by (rule last_in_set)
  with l s show False by (simp add: simple_name_def)
qed

lemma os_path_dirname_empty: "os_path_dirname w = [] \<longleftrightarrow> CHR ''/'' \<notin> set w"
proof -
  let ?head = "rev (dropWhile (\<lambda>c. c \<noteq> CHR ''/'') (rev w))"
  have h: "?head = [] \<longleftrightarrow> CHR ''/'' \<notin> set w"
    by (auto simp: dropWhile_all)
  have r: "rstrip ?head ''/'' = [] \<longleftrightarrow> ?head = replicate (length ?head) (CHR ''/'')"
  proof -
    have "rstrip ?head ''/'' = [] \<longleftrightarrow> (\<forall>c \<in> set ?head. c = CHR ''/'')"
      by (simp add: rstrip_def dropWhile_all)
    also have "\<dots> \<longleftrightarrow> ?head = replicate (length ?head) (CHR ''/'')"
      by (rule all_slashes)
    finally show ?thesis .
  qed
  show ?thesis
    unfolding os_path_dirname_def Let_def using h r by auto
qed

lemma translate_path_loop_foldl:
  "translate_path_loop p words =
     foldl os_path_join p
       (filter (\<lambda>w. CHR ''/'' \<notin> set w \<and> w \<noteq> ''.'' \<and> w \<noteq> ''..'') words)"
  by (induction words arbitrary: p) (simp_all add: os_path_dirname_empty)

lemma os_path_join_simple:
  assumes "simple_name w"
  shows "os_path_join a w = (if a = [] \<or> endswith a ''/'' then a else a @ ''/'') @ w"
proof -
  have "\<not> startswith w ''/''"
    using assms by (cases w) (auto simp: simple_name_def startswith_def)
  then show ?thesis by (simp add: os_path_join_def)
qed

lemma foldl_join_simple:
  assumes "list_all simple_name ws" and "a \<noteq> []" and "\<not> endswith a ''/''"
  shows "foldl os_path_join a ws = a @ concat (map (\<lambda>w. ''/'' @ w) ws)"
  using assms
proof (induction ws arbitrary: a)
  case Nil
  then show ?case by simp
next
  case (Cons w ws)
  then have w: "simple_name w" and ws: "list_all simple_name ws" by simp_all
  have j: "os_path_join a w = a @ ''/'' @ w"
    using os_path_join_simple [OF w, of a] Cons.prems by simp
  have ne: "a @ ''/'' @ w \<noteq> []" using Cons.prems by simp
  have "last (a @ ''/'' @ w) = last w"
    using w by (simp add: simple_name_def)
  moreover have "last w \<noteq> CHR ''/''"
    using w by (rule simple_name_last)
  ultimately have ns: "\<not> endswith (a @ ''/'' @ w) ''/''"
    unfolding endswith_slash by simp
  show ?case
    using Cons.IH [OF ws ne ns] j by simp
qed

lemma join_slash: "join ''/'' (w # ws) = w @ concat (map (\<lambda>w. ''/'' @ w) ws)"
  by (induction ws arbitrary: w) simp_all

lemma foldl_join_under:
  assumes "list_all simple_name ws"
  shows "foldl os_path_join root ws =
           (if ws = [] then root
            else (if root = [] \<or> endswith root ''/'' then root else root @ ''/'') @ join ''/'' ws)"
proof (cases ws)
  case Nil
  then show ?thesis by simp
next
  case (Cons w ws')
  then have w: "simple_name w" and ws': "list_all simple_name ws'"
    using assms by simp_all
  let ?a = "(if root = [] \<or> endswith root ''/'' then root else root @ ''/'') @ w"
  have j: "os_path_join root w = ?a"
    using os_path_join_simple [OF w, of root] by simp
  have ne: "?a \<noteq> []" using w by (simp add: simple_name_def)
  have "last ?a = last w" using w by (simp add: simple_name_def)
  moreover have "last w \<noteq> CHR ''/''"
    using w by (rule simple_name_last)
  ultimately have ns: "\<not> endswith ?a ''/''"
    unfolding endswith_slash by simp
  show ?thesis
    using foldl_join_simple [OF ws' ne ns] j Cons
    by (simp add: join_slash del: join.simps)
qed

text \<open>
  Claim C9. For every requested path, the file name that \<^verbatim>\<open>translate_path\<close> returns is
  the serving root (\<^verbatim>\<open>self.directory\<close>, the working directory after the change into
  \<^verbatim>\<open>dist\<close>) followed by simple names, each after one slash, and at most one slash at the
  end: no component is \<^verbatim>\<open>..\<close> or \<^verbatim>\<open>.\<close>, none is empty and none holds a slash, whatever
  \<^verbatim>\<open>unquote\<close> returns. (The file system of the model has names only: what an entry
  of the serving root that is a symbolic link points to is outside this statement.)
\<close>

theorem translate_path_under_directory:
  "\<exists>ws suffix. list_all simple_name ws \<and> (suffix = [] \<or> suffix = ''/'')
     \<and> translate_path e h url =
         (if ws = [] then directory h
          else (if directory h = [] \<or> endswith (directory h) ''/'' then directory h
                else directory h @ ''/'') @ join ''/'' ws) @ suffix"
proof -
  define p2 where "p2 = split1_head (split1_head url (CHR ''?'')) (CHR ''#'')"
  define words where "words = filter (\<lambda>w. w \<noteq> []) (split_sep (normpath (unquote e p2)) (CHR ''/''))"
  define ws where "ws = filter (\<lambda>w. CHR ''/'' \<notin> set w \<and> w \<noteq> ''.'' \<and> w \<noteq> ''..'') words"
  define suffix where "suffix = (if endswith (rstrip_ws p2) ''/'' then ''/'' else [])"
  have s: "list_all simple_name ws"
    unfolding ws_def words_def by (simp add: list_all_iff simple_name_def)
  have t: "translate_path e h url = foldl os_path_join (directory h) ws @ suffix"
    unfolding translate_path_def Let_def translate_path_loop_foldl ws_def words_def
      suffix_def p2_def by simp
  have "suffix = [] \<or> suffix = ''/''"
    unfolding suffix_def by simp
  then have "list_all simple_name ws \<and> (suffix = [] \<or> suffix = ''/'')
     \<and> translate_path e h url =
         (if ws = [] then directory h
          else (if directory h = [] \<or> endswith (directory h) ''/'' then directory h
                else directory h @ ''/'') @ join ''/'' ws) @ suffix"
    using s t foldl_join_under [OF s, of "directory h"] by simp
  then show ?thesis by blast
qed

theorem translate_path_under_directory_witness:
  "translate_path example_env (new_handler example_env) ''/sub/../../../etc/passwd''
     = ''/srv/dist/etc/passwd''
   \<and> translate_path example_env (new_handler example_env) ''/sub//./x/?q=../..''
     = ''/srv/dist/sub/x/''
   \<and> (\<exists>ws suffix. list_all simple_name ws \<and> (suffix = [] \<or> suffix = ''/'')
     \<and> translate_path example_env (new_handler example_env) ''/sub/../../../etc/passwd'' =
         (if ws = [] then directory (new_handler example_env)
          else (if directory (new_handler example_env) = []
                   \<or> endswith (directory (new_handler example_env)) ''/''
                then directory (new_handler example_env)
                else directory (new_handler example_env) @ ''/'') @ join ''/'' ws) @ suffix)"
proof -
  have a: "translate_path example_env (new_handler example_env) ''/sub/../../../etc/passwd''
     = ''/srv/dist/etc/passwd''"
    by (simp add: translate_path_def split1_head_def rstrip_ws_def endswith_def unquote_def
        normpath_def startswith_def split_sep_def os_path_dirname_def os_path_join_def
        new_handler_def example_env_def isspace_def rstrip_def Let_def)
  have b: "translate_path example_env (new_handler example_env) ''/sub//./x/?q=../..''
     = ''/srv/dist/sub/x/''"
    by (simp add: translate_path_def split1_head_def rstrip_ws_def endswith_def unquote_def
        normpath_def startswith_def split_sep_def os_path_dirname_def os_path_join_def
        new_handler_def example_env_def isspace_def rstrip_def Let_def)
  show ?thesis
    using a b translate_path_under_directory [of example_env "new_handler example_env"
        "''/sub/../../../etc/passwd''"]
    by simp
qed

end
